theory Spec2Isabelle
  imports Complex_Main "HOL-Library.Word" "HOL-Library.Log_Nat"
begin

section \<open>JavaScript values used by App.jsx\<close>

text \<open>
  The component \<open>App\<close> of \<open>src/frontend/src/App.jsx\<close> is embedded as follows.
  A value that may be \<open>null\<close> or \<open>undefined\<close> is an \<open>option\<close> (\<open>None\<close>).
  A value returned by a contract call of type \<open>uint256\<close> (a BigInt below \<open>2 ^ 256\<close>)
  is a \<open>256 word\<close>, a \<open>uint8\<close> is an \<open>8 word\<close>.
  A JavaScript Number is represented by the exact rational value of the finite
  IEEE-754 binary64 number it denotes.
\<close>

type_synonym uint256 = "256 word"
type_synonym uint8 = "8 word"
type_synonym js_number = rat

datatype js_error =
    ReferenceError string   \<comment> \<open>read of a binding in its temporal dead zone\<close>
  | TypeError string        \<comment> \<open>property read on \<open>null\<close>\<close>
  | Rejected string         \<comment> \<open>a rejected promise of the wallet or of a contract call\<close>

subsection \<open>Numbers: \<open>Number(bigint)\<close> and \<open>/\<close>\<close>

text \<open>
  \<open>ilog2 v\<close> is the binary exponent of a positive rational: \<open>2 ^ e \<le> v < 2 ^ (e + 1)\<close>.
\<close>

definition ilog2 :: "rat \<Rightarrow> int" where
  "ilog2 v = (if 1 \<le> v then bitlen \<lfloor>v\<rfloor> - 1 else - bitlen (\<lceil>1 / v\<rceil> - 1))"

definition round_half_even :: "rat \<Rightarrow> int" where
  "round_half_even q =
     (let f = \<lfloor>q\<rfloor>; r = q - of_int f
      in if 1 / 2 < r \<or> (r = 1 / 2 \<and> odd f) then f + 1 else f)"

text \<open>
  \<open>to_double v\<close> is the binary64 number nearest to the non-negative real \<open>v\<close>, ties to the
  even significand (53 significant bits). Every value rounded in \<open>App\<close> comes from a
  \<open>uint256\<close> or from such a value divided by 100, so it is 0 or lies in the normal range
  of binary64: neither overflow to \<open>Infinity\<close> nor a subnormal result can occur.
\<close>

definition to_double :: "rat \<Rightarrow> js_number" where
  "to_double v =
     (if v = 0 then 0
      else let u = 2 powi (ilog2 v - 52)
           in of_int (round_half_even (v / u)) * u)"

definition Number_bigint :: "nat \<Rightarrow> js_number" where
  \<comment> \<open>\<open>Number(x)\<close> for a BigInt \<open>x\<close>\<close>
  "Number_bigint n = to_double (of_nat n)"

definition js_divide :: "js_number \<Rightarrow> js_number \<Rightarrow> js_number" where
  \<comment> \<open>\<open>x / y\<close> on Numbers, for \<open>x \<ge> 0\<close> and \<open>y > 0\<close>\<close>
  "js_divide x y = to_double (x / y)"

subsection \<open>Strings: \<open>ethers.formatEther\<close>\<close>

text \<open>
  \<open>ethers\<close> is an external package (version 6, which has \<open>BrowserProvider\<close>).
  \<open>formatEther wei\<close> is \<open>formatUnits(wei, 18)\<close>, the string of the fixed-point number
  with 18 decimals: the decimal digits of the value, padded on the left with blocks of
  \<open>"0000"\<close> until there is a whole digit, the point inserted, superfluous zeros of the
  whole part and of the decimal part removed (at least one digit stays on each side).
  The value is a \<open>uint256\<close> here, so the branch for a negative value is not needed.
\<close>

definition digit_char :: "nat \<Rightarrow> char" where
  "digit_char d = ''0123456789'' ! d"

function toString_bigint :: "nat \<Rightarrow> string" where
  "toString_bigint n =
     (if n < 10 then [digit_char n]
      else toString_bigint (n div 10) @ [digit_char (n mod 10)])"
  by pat_completeness auto
termination
  by (relation "measure (\<lambda>n. n)") auto

function pad_whole :: "nat \<Rightarrow> string \<Rightarrow> string" where
  \<comment> \<open>\<open>while (str.length <= decimals) { str = Zeros + str; }\<close>\<close>
  "pad_whole decimals str =
     (if length str \<le> decimals then pad_whole decimals (''0000'' @ str) else str)"
  by pat_completeness auto
termination
  by (relation "measure (\<lambda>(decimals, str). Suc decimals - length str)") auto

fun trim_whole :: "string \<Rightarrow> string" where
  \<comment> \<open>\<open>while (str[0] === "0" && str[1] !== ".") { str = str.substring(1); }\<close>\<close>
  "trim_whole [] = []"
| "trim_whole [a] = (if a = CHR ''0'' then [] else [a])"
| "trim_whole (a # b # s) =
     (if a = CHR ''0'' \<and> b \<noteq> CHR ''.'' then trim_whole (b # s) else a # b # s)"

definition trim_decimal :: "string \<Rightarrow> string" where
  \<comment> \<open>the same loop from the end of the string\<close>
  "trim_decimal str = rev (trim_whole (rev str))"

definition fixed_toString :: "nat \<Rightarrow> nat \<Rightarrow> string" where
  "fixed_toString val decimals =
     (if decimals = 0 then toString_bigint val
      else let str = pad_whole decimals (toString_bigint val);
               index = length str - decimals;
               str = take index str @ ''.'' @ drop index str
           in trim_decimal (trim_whole str))"

definition formatEther :: "nat \<Rightarrow> string" where
  "formatEther wei = fixed_toString wei 18"

subsection \<open>Strings: \<open>parseFloat\<close> and \<open>toFixed\<close>\<close>

text \<open>
  \<open>parseFloat str\<close> reads the longest prefix of \<open>str\<close> that is a decimal literal and
  gives the binary64 number nearest to its value, or \<open>NaN\<close> (\<open>None\<close>) when there is no
  such prefix. The literals read here are decimal digits, optionally followed by a point
  and decimal digits, or a point followed by decimal digits. \<open>App\<close> applies \<open>parseFloat\<close>
  to the strings of \<open>formatEther\<close> only, which are digits, a point and digits: they have
  no leading white space, no sign, no exponent part and are not \<open>Infinity\<close>, the other
  forms the built-in function reads.
\<close>

definition is_digit :: "char \<Rightarrow> bool" where
  "is_digit c = (c \<in> set ''0123456789'')"

definition digit_value :: "char \<Rightarrow> nat" where
  \<comment> \<open>the place of the digit in \<open>0123456789\<close>\<close>
  "digit_value c = length (takeWhile (\<lambda>d. d \<noteq> c) ''0123456789'')"

definition decimal_value :: "string \<Rightarrow> nat" where
  "decimal_value ds = foldl (\<lambda>a c. 10 * a + digit_value c) 0 ds"

definition parseFloat :: "string \<Rightarrow> js_number option" where
  "parseFloat str =
     (let whole = takeWhile is_digit str;
          rest = dropWhile is_digit str;
          fraction = (case rest of
                        [] \<Rightarrow> []
                      | c # r \<Rightarrow> if c = CHR ''.'' then takeWhile is_digit r else [])
      in if whole = [] \<and> fraction = [] then None
         else Some (to_double (of_nat (decimal_value (whole @ fraction)) / 10 ^ length fraction)))"

text \<open>
  \<open>x.toFixed(f)\<close>, for \<open>f\<close> from 0 to 100 (it is 2 in \<open>App\<close>). \<open>NaN\<close> prints as
  \<open>NaN\<close>. A number below \<open>10 ^ 21\<close> prints as the integer \<open>n\<close> nearest to \<open>x * 10 ^ f\<close>
  (the larger one of two) with the point before its last \<open>f\<close> digits, zeros added on the
  left where \<open>n\<close> has too few digits. A number of at least \<open>10 ^ 21\<close> prints in the
  exponent notation of \<open>Number::toString\<close>; that notation is not modelled, it is the
  parameter \<open>Number_toString\<close>.
\<close>

definition toFixed :: "(js_number \<Rightarrow> string) \<Rightarrow> js_number option \<Rightarrow> nat \<Rightarrow> string" where
  "toFixed Number_toString x f =
     (case x of
        None \<Rightarrow> ''NaN''
      | Some v \<Rightarrow>
          let s = (if v < 0 then ''-'' else []);
              a = \<bar>v\<bar>
          in if 10 ^ 21 \<le> a then s @ Number_toString a
             else
               let n = nat \<lfloor>a * 10 ^ f + 1 / 2\<rfloor>;
                   m = toString_bigint n;
                   m = (if length m \<le> f then replicate (f + 1 - length m) CHR ''0'' @ m else m)
               in s @ (if f = 0 then m
                       else take (length m - f) m @ ''.'' @ drop (length m - f) m))"

subsection \<open>Arrays: reading an element\<close>

text \<open>
  \<open>xs[i]\<close> for a Number \<open>i\<close>: the element when \<open>i\<close> is an integer index of the array,
  \<open>undefined\<close> otherwise. No exception is raised.
\<close>

definition js_index :: "'a list \<Rightarrow> js_number \<Rightarrow> 'a option" where
  "js_index xs i =
     (if of_int \<lfloor>i\<rfloor> = i \<and> 0 \<le> i \<and> nat \<lfloor>i\<rfloor> < length xs then Some (xs ! nat \<lfloor>i\<rfloor>) else None)"

definition first_element :: "'a list \<Rightarrow> 'a option" where
  \<comment> \<open>\<open>xs[0]\<close>\<close>
  "first_element xs = (case xs of [] \<Rightarrow> None | x # _ \<Rightarrow> Some x)"

definition template :: "string option \<Rightarrow> string" where
  \<comment> \<open>\<open>${x}\<close> in a template literal\<close>
  "template x = (case x of None \<Rightarrow> ''undefined'' | Some s \<Rightarrow> s)"

section \<open>The state of the component and the outside world\<close>

datatype provider = BrowserProvider

datatype signer = JsonRpcSigner string

record contract =
  target :: string
  abi :: "string list"
  runner :: signer

record contracts_obj =
  reputationNFT :: contract
  lendingPool :: contract
  trustCircle :: contract

text \<open>The tuple returned by \<open>getReputationData\<close> (the source reads it as \<open>data\<close>).\<close>

record reputation_tuple =
  data_score :: uint256
  data_loansCompleted :: uint256
  data_totalBorrowed :: uint256
  data_totalRepaid :: uint256
  data_lastUpdated :: uint256
  data_currentTier :: uint8

text \<open>The object passed to \<open>setReputationData\<close>: the Snapshot.\<close>

record snapshot =
  score :: js_number
  tier :: js_number
  loansCompleted :: js_number
  totalBorrowed :: string
  totalRepaid :: string
  borrowingLimit :: string
  interestRate :: js_number
  trustScore :: js_number
  circles :: js_number

text \<open>The \<open>useState\<close> cells of \<open>App\<close>.\<close>

record app_state =
  account :: "string option"
  provider :: "provider option"
  signer :: "signer option"
  contracts :: "contracts_obj option"
  reputationData :: "snapshot option"
  loading :: bool
  activeTab :: string

definition initial_state :: app_state where
  "initial_state =
     \<lparr>account = None, provider = None, signer = None, contracts = None,
      reputationData = None, loading = False, activeTab = ''dashboard''\<rparr>"

text \<open>
  The outside world: what the wallet and the three contracts answer when asked.
  \<open>Inl\<close> is a rejected promise.
\<close>

record world =
  ethereum :: bool   \<comment> \<open>\<open>typeof window.ethereum !== 'undefined'\<close>\<close>
  eth_requestAccounts :: "js_error + string list"
  getSigner :: "js_error + signer"
  getReputationScore :: "contract \<Rightarrow> string option \<Rightarrow> js_error + uint256"
  getReputationData :: "contract \<Rightarrow> string option \<Rightarrow> js_error + reputation_tuple"
  getBorrowingLimit :: "contract \<Rightarrow> string option \<Rightarrow> js_error + uint256"
  getInterestRate :: "contract \<Rightarrow> string option \<Rightarrow> js_error + uint256"
  getTrustScore :: "contract \<Rightarrow> string option \<Rightarrow> js_error + uint256"
  getUserCircles :: "contract \<Rightarrow> string option \<Rightarrow> js_error + uint256 list"
  mint :: "contract \<Rightarrow> string option \<Rightarrow> js_error + unit"
  wait :: "js_error + unit"

text \<open>
  What a run does that can be observed from outside, in order: the requests it issues,
  the dialogs, the console, and the Snapshots it publishes.
\<close>

datatype call =
    EthRequestAccounts | GetSigner
  | GetReputationScore | GetReputationData | GetBorrowingLimit | GetInterestRate
  | GetTrustScore | GetUserCircles
  | Mint | TxWait

datatype event =
    Call call
  | Alert string
  | ConsoleError string js_error
  | SetReputationData snapshot

record machine =
  session :: app_state
  trace :: "event list"

section \<open>Statements: state, exceptions, \<open>await\<close>\<close>

text \<open>
  A statement runs on a machine and ends normally with a value (\<open>Inr\<close>) or by throwing
  (\<open>Inl\<close>); what it did to the state before throwing stays done.
\<close>

type_synonym 'a js = "machine \<Rightarrow> (js_error + 'a) \<times> machine"

definition return :: "'a \<Rightarrow> 'a js" where
  "return v = (\<lambda>m. (Inr v, m))"

definition throw :: "js_error \<Rightarrow> 'a js" where
  "throw e = (\<lambda>m. (Inl e, m))"

definition bind :: "'a js \<Rightarrow> ('a \<Rightarrow> 'b js) \<Rightarrow> 'b js" where
  "bind p f = (\<lambda>m. case p m of (Inl e, m') \<Rightarrow> (Inl e, m') | (Inr v, m') \<Rightarrow> f v m')"

definition seq :: "unit js \<Rightarrow> 'b js \<Rightarrow> 'b js" where
  "seq p q = bind p (\<lambda>_. q)"

definition try_catch :: "'a js \<Rightarrow> (js_error \<Rightarrow> 'a js) \<Rightarrow> 'a js" where
  "try_catch p h = (\<lambda>m. case p m of (Inl e, m') \<Rightarrow> h e m' | (Inr v, m') \<Rightarrow> (Inr v, m'))"

definition emit :: "event \<Rightarrow> unit js" where
  "emit ev = (\<lambda>m. (Inr (), m\<lparr>trace := trace m @ [ev]\<rparr>))"

definition await :: "call \<Rightarrow> js_error + 'a \<Rightarrow> 'a js" where
  \<comment> \<open>the request is issued, the caller is suspended until the answer is there\<close>
  "await c answer = bind (emit (Call c)) (\<lambda>_. case answer of Inl e \<Rightarrow> throw e | Inr v \<Rightarrow> return v)"

definition alert :: "string \<Rightarrow> unit js" where
  "alert s = emit (Alert s)"

definition console_error :: "string \<Rightarrow> js_error \<Rightarrow> unit js" where
  "console_error s e = emit (ConsoleError s e)"

definition modify :: "(app_state \<Rightarrow> app_state) \<Rightarrow> unit js" where
  "modify f = (\<lambda>m. (Inr (), m\<lparr>session := f (session m)\<rparr>))"

definition setAccount :: "string option \<Rightarrow> unit js" where
  "setAccount v = modify (\<lambda>s. s\<lparr>account := v\<rparr>)"

definition setProvider :: "provider option \<Rightarrow> unit js" where
  "setProvider v = modify (\<lambda>s. s\<lparr>provider := v\<rparr>)"

definition setSigner :: "signer option \<Rightarrow> unit js" where
  "setSigner v = modify (\<lambda>s. s\<lparr>signer := v\<rparr>)"

definition setContracts :: "contracts_obj option \<Rightarrow> unit js" where
  "setContracts v = modify (\<lambda>s. s\<lparr>contracts := v\<rparr>)"

definition setLoading :: "bool \<Rightarrow> unit js" where
  "setLoading v = modify (\<lambda>s. s\<lparr>loading := v\<rparr>)"

definition setReputationData :: "snapshot \<Rightarrow> unit js" where
  "setReputationData v =
     seq (emit (SetReputationData v)) (modify (\<lambda>s. s\<lparr>reputationData := Some v\<rparr>))"

section \<open>\<open>loadUserData\<close>\<close>

text \<open>
  Line 87, \<open>const contracts = contractsObj || contracts\<close>: the \<open>contracts\<close> on the right is
  the constant being declared, not the state cell. When \<open>contractsObj\<close> is an object the
  right operand is not evaluated; when it is \<open>undefined\<close> the read of the uninitialised
  constant throws a ReferenceError.
\<close>

definition contractsObj_or_contracts :: "contracts_obj option \<Rightarrow> contracts_obj option js" where
  "contractsObj_or_contracts contractsObj =
     (case contractsObj of
        Some c \<Rightarrow> return (Some c)
      | None \<Rightarrow> throw (ReferenceError ''contracts''))"

definition make_snapshot ::
  "reputation_tuple \<Rightarrow> uint256 \<Rightarrow> uint256 \<Rightarrow> uint256 \<Rightarrow> uint256 list \<Rightarrow> snapshot" where
  "make_snapshot data borrowingLimit' interestRate' trustScore' circles' =
     \<lparr>score = Number_bigint (unat (data_score data)),
      tier = Number_bigint (unat (data_currentTier data)),
      loansCompleted = Number_bigint (unat (data_loansCompleted data)),
      totalBorrowed = formatEther (unat (data_totalBorrowed data)),
      totalRepaid = formatEther (unat (data_totalRepaid data)),
      borrowingLimit = formatEther (unat borrowingLimit'),
      interestRate = js_divide (Number_bigint (unat interestRate')) 100,
      trustScore = Number_bigint (unat trustScore'),
      circles = of_nat (length circles')\<rparr>"

definition loadUserData :: "world \<Rightarrow> string option \<Rightarrow> contracts_obj option \<Rightarrow> unit js" where
  "loadUserData w address contractsObj =
     try_catch
       (bind (contractsObj_or_contracts contractsObj) (\<lambda>contracts'.
          case contracts' of
            None \<Rightarrow> return ()
          | Some c \<Rightarrow>
              bind (await GetReputationScore (getReputationScore w (reputationNFT c) address)) (\<lambda>score'.
                if 0 < unat score' then
                  bind (await GetReputationData (getReputationData w (reputationNFT c) address)) (\<lambda>data.
                  bind (await GetBorrowingLimit (getBorrowingLimit w (lendingPool c) address)) (\<lambda>borrowingLimit'.
                  bind (await GetInterestRate (getInterestRate w (lendingPool c) address)) (\<lambda>interestRate'.
                  bind (await GetTrustScore (getTrustScore w (trustCircle c) address)) (\<lambda>trustScore'.
                  bind (await GetUserCircles (getUserCircles w (trustCircle c) address)) (\<lambda>circles'.
                    setReputationData
                      (make_snapshot data borrowingLimit' interestRate' trustScore' circles'))))))
                else return ())))
       (\<lambda>error. console_error ''Error loading user data:'' error)"

section \<open>\<open>connectWallet\<close>\<close>

definition REPUTATION_NFT_ABI :: "string list" where
  "REPUTATION_NFT_ABI =
     [''function mint(address user) external returns (uint256)'',
      ''function getReputationScore(address user) external view returns (uint256)'',
      ''function getReputationData(address user) external view returns (tuple(uint256 score, uint256 loansCompleted, uint256 totalBorrowed, uint256 totalRepaid, uint256 lastUpdated, uint8 currentTier))'',
      ''function userToTokenId(address user) external view returns (uint256)'']"

definition LENDING_POOL_ABI :: "string list" where
  "LENDING_POOL_ABI =
     [''function deposit() external payable'',
      ''function withdraw(uint256 amount) external'',
      ''function borrow(uint256 amount, uint256 duration) external returns (uint256)'',
      ''function repay(uint256 loanId) external payable'',
      ''function getBorrowingLimit(address borrower) external view returns (uint256)'',
      ''function getInterestRate(address borrower) external view returns (uint256)'',
      ''function getLoan(uint256 loanId) external view returns (tuple(address borrower, uint256 amount, uint256 interestRate, uint256 startTime, uint256 duration, uint256 amountRepaid, bool active, bool defaulted))'',
      ''function getBorrowerLoans(address borrower) external view returns (uint256[])'',
      ''function totalLiquidity() external view returns (uint256)'']"

definition TRUST_CIRCLE_ABI :: "string list" where
  "TRUST_CIRCLE_ABI =
     [''function createCircle(string memory name, uint256 minReputation) external returns (uint256)'',
      ''function getUserCircles(address user) external view returns (uint256[])'',
      ''function getCircleMembers(uint256 circleId) external view returns (address[])'',
      ''function getTrustScore(address user) external view returns (uint256)'']"

text \<open>\<open>CONTRACT_ADDRESSES\<close>, one constant for each of its three properties.\<close>

definition CONTRACT_ADDRESSES_reputationNFT :: string where
  "CONTRACT_ADDRESSES_reputationNFT = ''0x...''"

definition CONTRACT_ADDRESSES_lendingPool :: string where
  "CONTRACT_ADDRESSES_lendingPool = ''0x...''"

definition CONTRACT_ADDRESSES_trustCircle :: string where
  "CONTRACT_ADDRESSES_trustCircle = ''0x...''"

text \<open>
  \<open>new ethers.Contract(target, abi, runner)\<close> builds the handle from its three arguments
  and sends nothing; the requests are sent by the method calls.
\<close>

definition Contract :: "string \<Rightarrow> string list \<Rightarrow> signer \<Rightarrow> contract" where
  "Contract t a r = \<lparr>target = t, abi = a, runner = r\<rparr>"

definition connectWallet :: "world \<Rightarrow> unit js" where
  "connectWallet w =
     try_catch
       (if \<not> ethereum w then alert ''Please install MetaMask!''
        else
          seq (setLoading True)
         (bind (await EthRequestAccounts (eth_requestAccounts w)) (\<lambda>accounts.
          bind (await GetSigner (getSigner w)) (\<lambda>signer'.
          seq (setProvider (Some BrowserProvider))
         (seq (setSigner (Some signer'))
         (seq (setAccount (first_element accounts))
         (let reputationNFT' = Contract CONTRACT_ADDRESSES_reputationNFT REPUTATION_NFT_ABI signer';
              lendingPool' = Contract CONTRACT_ADDRESSES_lendingPool LENDING_POOL_ABI signer';
              trustCircle' = Contract CONTRACT_ADDRESSES_trustCircle TRUST_CIRCLE_ABI signer';
              c = \<lparr>reputationNFT = reputationNFT', lendingPool = lendingPool',
                   trustCircle = trustCircle'\<rparr>
          in seq (setContracts (Some c))
            (seq (loadUserData w (first_element accounts) (Some c))
                 (setLoading False)))))))))
       (\<lambda>error. seq (console_error ''Error connecting wallet:'' error) (setLoading False))"

section \<open>\<open>mintReputation\<close>\<close>

definition get_state :: "app_state js" where
  "get_state = (\<lambda>m. (Inr (session m), m))"

text \<open>
  \<open>contracts.reputationNFT.mint(account)\<close> reads the state cells \<open>contracts\<close> and
  \<open>account\<close>; the property read throws a TypeError when \<open>contracts\<close> is \<open>null\<close>.
  \<open>loadUserData(account)\<close> is called with one argument: \<open>contractsObj\<close> is
  \<open>undefined\<close>.
\<close>

definition mintReputation :: "world \<Rightarrow> unit js" where
  "mintReputation w =
     try_catch
       (seq (setLoading True)
       (bind get_state (\<lambda>st.
        bind (case contracts st of
                None \<Rightarrow> throw (TypeError ''reputationNFT'')
              | Some c \<Rightarrow> await Mint (mint w (reputationNFT c) (account st))) (\<lambda>tx.
        seq (await TxWait (wait w))
       (seq (loadUserData w (account st) None)
       (seq (setLoading False)
            (alert ''Reputation NFT minted successfully!'')))))))
       (\<lambda>error.
          seq (console_error ''Error minting:'' error)
         (seq (setLoading False)
              (alert ''Error minting NFT'')))"

section \<open>The view: tier name, tier colour, amounts\<close>

definition tierNames :: "string list" where
  "tierNames = [''Bronze'', ''Silver'', ''Gold'', ''Platinum'', ''Diamond'']"

definition tierColors :: "string list" where
  "tierColors = [''#CD7F32'', ''#C0C0C0'', ''#FFD700'', ''#E5E4E2'', ''#B9F2FF'']"

text \<open>
  Lines 213 to 224, for a stored Snapshot: the style of the score circle, and the tier
  badge with its colour and its text. An expression that is \<open>undefined\<close> prints as
  \<open>undefined\<close> inside a template literal; as an element's child it prints nothing, as a
  style value it sets nothing. The evaluation ends normally (\<open>Inr\<close>) or throws (\<open>Inl\<close>).
\<close>

record tier_view =
  background :: string
  boxShadow :: string
  badge_color :: "string option"
  badge_text :: string

definition render_tier :: "snapshot \<Rightarrow> js_error + tier_view" where
  "render_tier rd =
     Inr \<lparr>background =
            ''linear-gradient(135deg, '' @ template (js_index tierColors (tier rd)) @ '', ''
              @ template (js_index tierColors (tier rd)) @ ''99)'',
          boxShadow = ''0 0 40px '' @ template (js_index tierColors (tier rd)) @ ''66'',
          badge_color = js_index tierColors (tier rd),
          badge_text =
            (case js_index tierNames (tier rd) of None \<Rightarrow> [] | Some n \<Rightarrow> n) @ '' Tier''\<rparr>"

text \<open>
  Lines 233, 237 and 250: an amount of the Snapshot is shown as
  \<open>parseFloat(amount).toFixed(2)\<close>, followed by the unit.
\<close>

definition displayed_amount :: "(js_number \<Rightarrow> string) \<Rightarrow> string \<Rightarrow> string" where
  "displayed_amount Number_toString amount = toFixed Number_toString (parseFloat amount) 2"

definition amount_text :: "(js_number \<Rightarrow> string) \<Rightarrow> string \<Rightarrow> string" where
  "amount_text Number_toString amount = displayed_amount Number_toString amount @ '' ETH''"

section \<open>Observing a run\<close>

definition outcome :: "'a js \<Rightarrow> machine \<Rightarrow> js_error + 'a" where
  "outcome p m = fst (p m)"

definition after :: "'a js \<Rightarrow> machine \<Rightarrow> app_state" where
  "after p m = session (snd (p m))"

definition events :: "'a js \<Rightarrow> machine \<Rightarrow> event list" where
  \<comment> \<open>what the run added to the trace\<close>
  "events p m = drop (length (trace m)) (trace (snd (p m)))"

fun calls_of :: "event list \<Rightarrow> call list" where
  "calls_of [] = []"
| "calls_of (Call c # evs) = c # calls_of evs"
| "calls_of (_ # evs) = calls_of evs"

fun published :: "event list \<Rightarrow> snapshot list" where
  "published [] = []"
| "published (SetReputationData s # evs) = s # published evs"
| "published (_ # evs) = published evs"

fun alerts :: "event list \<Rightarrow> string list" where
  "alerts [] = []"
| "alerts (Alert s # evs) = s # alerts evs"
| "alerts (_ # evs) = alerts evs"

fun console :: "event list \<Rightarrow> (string \<times> js_error) list" where
  "console [] = []"
| "console (ConsoleError s e # evs) = (s, e) # console evs"
| "console (_ # evs) = console evs"

section \<open>A concrete world: the scenario of the specification\<close>

definition alice :: string where
  "alice = ''0x70997970C51812dc3A010C7d01b50e0d17dc79C8''"

definition scenario_signer :: signer where
  "scenario_signer = JsonRpcSigner alice"

definition scenario_contracts :: contracts_obj where
  "scenario_contracts =
     \<lparr>reputationNFT = Contract CONTRACT_ADDRESSES_reputationNFT REPUTATION_NFT_ABI scenario_signer,
      lendingPool = Contract CONTRACT_ADDRESSES_lendingPool LENDING_POOL_ABI scenario_signer,
      trustCircle = Contract CONTRACT_ADDRESSES_trustCircle TRUST_CIRCLE_ABI scenario_signer\<rparr>"

definition scenario_data :: reputation_tuple where
  "scenario_data =
     \<lparr>data_score = 750, data_loansCompleted = 3,
      data_totalBorrowed = 5000000000000000000, data_totalRepaid = 4800000000000000000,
      data_lastUpdated = 1700000000, data_currentTier = 2\<rparr>"

definition scenario :: world where
  "scenario =
     \<lparr>ethereum = True,
      eth_requestAccounts = Inr [alice],
      getSigner = Inr scenario_signer,
      getReputationScore = (\<lambda>_ _. Inr 750),
      getReputationData = (\<lambda>_ _. Inr scenario_data),
      getBorrowingLimit = (\<lambda>_ _. Inr 2000000000000000000),
      getInterestRate = (\<lambda>_ _. Inr 850),
      getTrustScore = (\<lambda>_ _. Inr 120),
      getUserCircles = (\<lambda>_ _. Inr [7, 12]),
      mint = (\<lambda>_ _. Inr ()),
      wait = Inr ()\<rparr>"

definition scenario_snapshot :: snapshot where
  "scenario_snapshot =
     \<lparr>score = 750, tier = 2, loansCompleted = 3,
      totalBorrowed = ''5.0'', totalRepaid = ''4.8'', borrowingLimit = ''2.0'',
      interestRate = 17 / 2, trustScore = 120, circles = 2\<rparr>"

definition fresh :: machine where
  \<comment> \<open>the component as mounted: nothing connected, nothing observed yet\<close>
  "fresh = \<lparr>session = initial_state, trace = []\<rparr>"

definition connected :: machine where
  \<comment> \<open>after a connection of \<open>alice\<close> whose reputation score was 0\<close>
  "connected =
     \<lparr>session = initial_state
        \<lparr>account := Some alice, provider := Some BrowserProvider,
         signer := Some scenario_signer, contracts := Some scenario_contracts\<rparr>,
      trace = []\<rparr>"

text \<open>Variants of the scenario, and machines they are run on.\<close>

definition unregistered :: world where
  "unregistered = scenario\<lparr>getReputationScore := (\<lambda>_ _. Inr 0)\<rparr>"

definition data_unavailable :: world where
  "data_unavailable =
     scenario\<lparr>getReputationData := (\<lambda>_ _. Inl (Rejected ''missing revert data''))\<rparr>"

definition rate_unavailable :: world where
  "rate_unavailable =
     scenario\<lparr>getInterestRate := (\<lambda>_ _. Inl (Rejected ''missing revert data''))\<rparr>"

definition huge_rate :: world where
  "huge_rate = scenario\<lparr>getInterestRate := (\<lambda>_ _. Inr 9007199254740993)\<rparr>"

definition user_rejects :: world where
  "user_rejects =
     scenario\<lparr>eth_requestAccounts := Inl (Rejected ''User rejected the request.'')\<rparr>"

definition onboarded :: machine where
  \<comment> \<open>connected, with the Snapshot of the scenario stored\<close>
  "onboarded =
     connected\<lparr>session := (session connected)\<lparr>reputationData := Some scenario_snapshot\<rparr>\<rparr>"

section \<open>Properties\<close>

subsection \<open>Numbers\<close>

lemma ilog2_bounds:
  assumes "0 < v"
  shows "2 powi (ilog2 v) \<le> v \<and> v < 2 powi (ilog2 v + 1)"
proof (cases "1 \<le> v")
  case True
  define f where "f = \<lfloor>v\<rfloor>"
  have f1: "1 \<le> f" using True by (simp add: f_def le_floor_iff)
  then have fpos: "0 < f" by simp
  have b1: "1 \<le> bitlen f" using fpos by (simp add: bitlen_alt_def)
  from bitlen_bounds [OF fpos]
  have lo: "2 ^ nat (bitlen f - 1) \<le> f" and hi: "f < 2 ^ nat (bitlen f)" by auto
  have e: "ilog2 v = bitlen f - 1" using True by (simp add: ilog2_def f_def)
  have "(2::rat) powi (bitlen f - 1) = of_int (2 ^ nat (bitlen f - 1))"
    using b1 by (simp add: power_int_def)
  also have "\<dots> \<le> of_int f" using lo by (simp only: of_int_le_iff)
  also have "\<dots> \<le> v" by (simp add: f_def)
  finally have A: "2 powi (ilog2 v) \<le> v" by (simp add: e)
  have "f + 1 \<le> 2 ^ nat (bitlen f)" using hi by simp
  then have "(of_int (f + 1) :: rat) \<le> of_int (2 ^ nat (bitlen f))" by (simp only: of_int_le_iff)
  moreover have "v < of_int (f + 1)" unfolding f_def by linarith
  moreover have "(2::rat) powi (bitlen f - 1 + 1) = of_int (2 ^ nat (bitlen f))"
    using b1 by (simp add: power_int_def)
  ultimately have B: "v < 2 powi (ilog2 v + 1)" by (simp add: e)
  from A B show ?thesis by simp
next
  case False
  then have v1: "v < 1" by simp
  define w where "w = 1 / v"
  define m where "m = \<lceil>w\<rceil> - 1"
  have w1: "1 < w" using assms v1 by (simp add: w_def)
  have mw: "of_int m < w" unfolding m_def by linarith
  have wm: "w \<le> of_int (m + 1)" unfolding m_def by simp
  have m1: "1 \<le> m" using w1 unfolding m_def by linarith
  then have mpos: "0 < m" by simp
  have b1: "1 \<le> bitlen m" using mpos by (simp add: bitlen_alt_def)
  from bitlen_bounds [OF mpos]
  have lo: "2 ^ nat (bitlen m - 1) \<le> m" and hi: "m < 2 ^ nat (bitlen m)" by auto
  have e: "ilog2 v = - bitlen m" using False by (simp add: ilog2_def m_def w_def)
  have "m + 1 \<le> 2 ^ nat (bitlen m)" using hi by simp
  then have "(of_int (m + 1) :: rat) \<le> of_int (2 ^ nat (bitlen m))" by (simp only: of_int_le_iff)
  with wm have "w \<le> 2 ^ nat (bitlen m)" by simp
  then have "1 / 2 ^ nat (bitlen m) \<le> v" using assms
    by (simp add: w_def field_simps)
  moreover have "(2::rat) powi (- bitlen m) = 1 / 2 ^ nat (bitlen m)"
    using b1 by (simp add: power_int_def field_simps)
  ultimately have A: "2 powi (ilog2 v) \<le> v" by (simp add: e)
  have "(of_int (2 ^ nat (bitlen m - 1)) :: rat) \<le> of_int m" using lo by (simp only: of_int_le_iff)
  then have "(2::rat) ^ nat (bitlen m - 1) \<le> of_int m" by simp
  with mw have "2 ^ nat (bitlen m - 1) < w" by linarith
  then have "v < 1 / 2 ^ nat (bitlen m - 1)" using assms
    by (simp add: w_def field_simps)
  moreover have "(2::rat) powi (- bitlen m + 1) = 1 / 2 ^ nat (bitlen m - 1)"
  proof -
    have "- bitlen m + 1 = - int (nat (bitlen m - 1))" using b1 by simp
    then show ?thesis by (simp only: power_int_minus_divide power_int_of_nat)
  qed
  ultimately have B: "v < 2 powi (ilog2 v + 1)" by (simp add: e)
  from A B show ?thesis by simp
qed

lemma pow2_less_imp: "(2::rat) powi a < 2 powi b \<Longrightarrow> a < b"
  using power_int_increasing [of b a "2::rat"] by (cases "a < b") auto

lemma ilog2_unique:
  assumes "2 powi e \<le> v" and "v < 2 powi (e + 1)"
  shows "ilog2 v = e"
proof -
  have "(0::rat) < 2 powi e" by simp
  with assms(1) have pos: "0 < v" by linarith
  from ilog2_bounds [OF pos]
  have lo: "2 powi (ilog2 v) \<le> v" and hi: "v < 2 powi (ilog2 v + 1)" by auto
  from lo assms(2) have "(2::rat) powi (ilog2 v) < 2 powi (e + 1)" by linarith
  then have "ilog2 v < e + 1" by (rule pow2_less_imp)
  moreover from assms(1) hi have "(2::rat) powi e < 2 powi (ilog2 v + 1)" by linarith
  then have "e < ilog2 v + 1" by (rule pow2_less_imp)
  ultimately show ?thesis by simp
qed

lemma round_half_even_of_int: "round_half_even (of_int z) = z"
  by (simp add: round_half_even_def)

lemma floor_rat_numeral: "\<lfloor>numeral a / numeral b :: rat\<rfloor> = numeral a div numeral b"
  using floor_divide_of_int_eq [of "numeral a" "numeral b", where ?'a = rat] by simp

text \<open>Rounding at a known binary exponent: how a concrete value is evaluated.\<close>

lemma to_double_eval:
  assumes "2 powi e \<le> v" and "v < 2 powi (e + 1)"
  shows "to_double v = of_int (round_half_even (v / 2 powi (e - 52))) * 2 powi (e - 52)"
proof -
  have "(0::rat) < 2 powi e" by simp
  with assms(1) have "v \<noteq> 0" by linarith
  then show ?thesis by (simp add: to_double_def Let_def ilog2_unique [OF assms])
qed

text \<open>A number with a significand of at most 53 bits is a binary64 number: it is not rounded.\<close>

lemma to_double_exact:
  assumes "0 \<le> m" and "m < 2 ^ 53"
  shows "to_double (of_int m * 2 powi k) = of_int m * 2 powi k"
proof (cases "m = 0")
  case True
  then show ?thesis by (simp add: to_double_def)
next
  case False
  define v :: rat where "v = of_int m * 2 powi k"
  define e where "e = ilog2 v"
  have mpos: "0 < m" using assms(1) False by simp
  then have pos: "0 < v" by (simp add: v_def)
  from ilog2_bounds [OF pos] have lo: "2 powi e \<le> v" by (simp add: e_def)
  have "(of_int m :: rat) < of_int (2 ^ 53)" using assms(2) by (simp only: of_int_less_iff)
  then have "(of_int m :: rat) < 2 powi 53" by simp
  then have "v < 2 powi 53 * 2 powi k" unfolding v_def
    by (intro mult_strict_right_mono) simp_all
  also have "\<dots> = 2 powi (53 + k)" by (simp add: power_int_add)
  finally have "(2::rat) powi e < 2 powi (53 + k)" using lo by linarith
  then have "e < 53 + k" by (rule pow2_less_imp)
  then have j: "0 \<le> k + 52 - e" by simp
  have "v / 2 powi (e - 52) = of_int m * (2 powi k / 2 powi (e - 52))" by (simp add: v_def)
  also have "2 powi k / 2 powi (e - 52) = (2::rat) powi (k + 52 - e)"
    by (simp add: power_int_diff [symmetric] algebra_simps)
  also have "\<dots> = 2 ^ nat (k + 52 - e)" using j by (simp add: power_int_nonneg_exp)
  finally have q: "v / 2 powi (e - 52) = of_int (m * 2 ^ nat (k + 52 - e))" by simp
  have "to_double v = of_int (round_half_even (v / 2 powi (e - 52))) * 2 powi (e - 52)"
    using pos by (simp add: to_double_def Let_def e_def)
  also have "\<dots> = (v / 2 powi (e - 52)) * 2 powi (e - 52)"
    by (simp only: q round_half_even_of_int)
  also have "\<dots> = v" by simp
  finally show ?thesis by (simp add: v_def)
qed

lemma Number_bigint_exact: "n < 2 ^ 53 \<Longrightarrow> Number_bigint n = of_nat n"
  using to_double_exact [of "int n" 0] by (simp add: Number_bigint_def)

text \<open>Whatever is rounded, the result is an integer times a power of two.\<close>

lemma to_double_dyadic: "\<exists>z k. to_double v = of_int z * 2 powi k"
proof (cases "v = 0")
  case True
  have "to_double 0 = of_int 0 * 2 powi 0" by (simp add: to_double_def)
  with True show ?thesis by blast
next
  case False
  then have "to_double v =
    of_int (round_half_even (v / 2 powi (ilog2 v - 52))) * 2 powi (ilog2 v - 52)"
    by (simp add: to_double_def Let_def)
  then show ?thesis by blast
qed

lemma dyadic_hundredth:
  assumes "of_nat n / 100 = (of_int z :: rat) * 2 powi k"
  shows "25 dvd n"
proof (cases "0 \<le> k")
  case True
  from assms have "(of_nat n :: rat) = of_int (100 * z * 2 ^ nat k)"
    using True by (simp add: power_int_nonneg_exp field_simps)
  then have "(of_int (int n) :: rat) = of_int (100 * z * 2 ^ nat k)" by simp
  then have "int n = 100 * z * 2 ^ nat k" by (simp only: of_int_eq_iff)
  then have "int n = 25 * (4 * z * 2 ^ nat k)" by simp
  then have "(25::int) dvd int n" by (rule dvdI)
  then show ?thesis by presburger
next
  case False
  then have k: "k = - int (nat (- k))" by simp
  have "(2::rat) powi k = 1 / 2 ^ nat (- k)"
    by (subst k) (simp only: power_int_minus_divide power_int_of_nat)
  with assms have "(of_nat n :: rat) * 2 ^ nat (- k) = of_int (100 * z)"
    by (simp add: field_simps)
  then have "(of_int (int n * 2 ^ nat (- k)) :: rat) = of_int (100 * z)" by simp
  then have eq: "int n * 2 ^ nat (- k) = 100 * z" by (simp only: of_int_eq_iff)
  have "(25::int) dvd 100 * z" by simp
  with eq have "(25::int) dvd int n * 2 ^ nat (- k)" by simp
  moreover have "coprime (25::int) (2 ^ nat (- k))"
  proof -
    have "coprime (25::int) 2" by (simp add: coprime_right_2_iff_odd)
    then show ?thesis by (rule coprime_power_right_iff [THEN iffD2, OF disjI1])
  qed
  ultimately have "(25::int) dvd int n" by (simp add: coprime_dvd_mult_left_iff)
  then show ?thesis by presburger
qed

text \<open>
  For a raw rate below \<open>2 ^ 53\<close>, \<open>Number(raw) / 100\<close> is \<open>raw / 100\<close> exactly when
  \<open>raw\<close> is a multiple of 25.
\<close>

lemma rate_exact_iff:
  assumes "n < 2 ^ 53"
  shows "js_divide (Number_bigint n) 100 = of_nat n / 100 \<longleftrightarrow> 25 dvd n"
proof
  assume "js_divide (Number_bigint n) 100 = of_nat n / 100"
  moreover obtain z k where "to_double (of_nat n / 100) = of_int z * 2 powi k"
    using to_double_dyadic by blast
  ultimately have "of_nat n / 100 = (of_int z :: rat) * 2 powi k"
    using assms by (simp add: js_divide_def Number_bigint_exact)
  then show "25 dvd n" by (rule dyadic_hundredth)
next
  assume "25 dvd n"
  then obtain q where q: "n = 25 * q" by (rule dvdE)
  with assms have "q < 2 ^ 53" by simp
  then have "int q < 2 ^ 53" by (simp only: of_nat_less_numeral_power_cancel_iff)
  then have "to_double (of_int (int q) * 2 powi (- 2)) = of_int (int q) * 2 powi (- 2)"
    by (intro to_double_exact) simp_all
  moreover have "(of_nat n :: rat) / 100 = of_int (int q) * 2 powi (- 2)"
    by (simp add: q)
  ultimately show "js_divide (Number_bigint n) 100 = of_nat n / 100"
    using assms by (simp add: js_divide_def Number_bigint_exact)
qed

lemma Number_bigint_2_53_1: "Number_bigint 9007199254740993 = 9007199254740992"
  unfolding Number_bigint_def
  by (subst to_double_eval [where e = 53])
     (simp_all add: round_half_even_def Let_def floor_rat_numeral)

lemma js_divide_2_53: "js_divide 9007199254740992 100 = 5764607523034235 / 64"
  unfolding js_divide_def
  by (subst to_double_eval [where e = 46])
     (simp_all add: round_half_even_def Let_def floor_rat_numeral)

subsection \<open>Strings\<close>

declare toString_bigint.simps [simp del] pad_whole.simps [simp del]

lemma is_digit_digit_char: "d < 10 \<Longrightarrow> is_digit (digit_char d)"
proof -
  assume "d < 10"
  then have "d \<in> {0, 1, 2, 3, 4, 5, 6, 7, 8, 9}" by auto
  then show ?thesis by (auto simp add: is_digit_def digit_char_def)
qed

lemma digit_value_digit_char: "d < 10 \<Longrightarrow> digit_value (digit_char d) = d"
proof -
  assume "d < 10"
  then have "d \<in> {0, 1, 2, 3, 4, 5, 6, 7, 8, 9}" by auto
  then show ?thesis by (auto simp add: digit_value_def digit_char_def)
qed

lemma is_digit_zero: "is_digit CHR ''0''"
  by (simp add: is_digit_def)

lemma not_digit_point: "\<not> is_digit CHR ''.''"
  by (simp add: is_digit_def)

lemma digit_value_zero: "digit_value CHR ''0'' = 0"
  by (simp add: digit_value_def)

lemma decimal_value_append:
  "decimal_value (xs @ ys) = decimal_value xs * 10 ^ length ys + decimal_value ys"
proof (induction ys rule: rev_induct)
  case Nil
  show ?case by (simp add: decimal_value_def)
next
  case (snoc y ys)
  have "decimal_value (xs @ ys @ [y]) = 10 * decimal_value (xs @ ys) + digit_value y"
    by (simp add: decimal_value_def)
  also have "\<dots> = 10 * (decimal_value xs * 10 ^ length ys + decimal_value ys) + digit_value y"
    by (simp only: snoc.IH)
  also have "\<dots> = decimal_value xs * 10 ^ length (ys @ [y]) + decimal_value (ys @ [y])"
    by (simp add: decimal_value_def algebra_simps)
  finally show ?case by simp
qed

lemma decimal_value_zeros: "decimal_value (replicate k CHR ''0'') = 0"
proof (induction k)
  case 0
  show ?case by (simp add: decimal_value_def)
next
  case (Suc k)
  have "replicate (Suc k) CHR ''0'' = replicate k CHR ''0'' @ [CHR ''0'']"
    by (simp add: replicate_append_same)
  then show ?case
    using Suc by (simp only: decimal_value_append) (simp add: decimal_value_def digit_value_zero)
qed

lemma toString_bigint_digits:
  "toString_bigint n \<noteq> [] \<and> (\<forall>c \<in> set (toString_bigint n). is_digit c) \<and>
   decimal_value (toString_bigint n) = n"
proof (induction n rule: toString_bigint.induct)
  case (1 n)
  show ?case
  proof (cases "n < 10")
    case True
    then show ?thesis
      by (simp add: toString_bigint.simps [of n] is_digit_digit_char decimal_value_def
          digit_value_digit_char)
  next
    case False
    with "1.IH" have IH: "\<forall>c \<in> set (toString_bigint (n div 10)). is_digit c"
      "decimal_value (toString_bigint (n div 10)) = n div 10" by simp_all
    have s: "toString_bigint n = toString_bigint (n div 10) @ [digit_char (n mod 10)]"
      using False by (simp add: toString_bigint.simps [of n])
    have "decimal_value (toString_bigint n) = (n div 10) * 10 + n mod 10"
      by (simp add: s decimal_value_append IH(2))
         (simp add: decimal_value_def digit_value_digit_char)
    then show ?thesis
      using IH(1) by (simp add: s is_digit_digit_char)
  qed
qed

lemma pad_whole_shape:
  "\<exists>k. pad_whole decimals str = replicate k CHR ''0'' @ str \<and>
       decimals < length (pad_whole decimals str)"
proof (induction decimals str rule: pad_whole.induct)
  case (1 decimals str)
  show ?case
  proof (cases "length str \<le> decimals")
    case True
    with "1.IH" obtain k where
      k: "pad_whole decimals (''0000'' @ str) = replicate k CHR ''0'' @ ''0000'' @ str"
      and len: "decimals < length (pad_whole decimals (''0000'' @ str))" by blast
    have p: "pad_whole decimals str = pad_whole decimals (''0000'' @ str)"
      using True by (simp add: pad_whole.simps [of decimals str])
    have z: "replicate 4 CHR ''0'' = ''0000''" by (simp add: numeral_eq_Suc)
    have "replicate k CHR ''0'' @ ''0000'' @ str = replicate (k + 4) CHR ''0'' @ str"
      by (simp only: replicate_add z append_assoc)
    with k len p show ?thesis by metis
  next
    case False
    then have "pad_whole decimals str = replicate 0 CHR ''0'' @ str"
      by (simp add: pad_whole.simps [of decimals str])
    moreover have "decimals < length (pad_whole decimals str)"
      using False by (simp add: pad_whole.simps [of decimals str])
    ultimately show ?thesis by blast
  qed
qed

text \<open>
  \<open>trim_whole\<close> on digits followed by a point removes zeros from the front and leaves
  at least one digit.
\<close>

lemma trim_whole_shape:
  assumes "w \<noteq> []" and "\<forall>c \<in> set w. is_digit c"
  shows "\<exists>k w'. w = replicate k CHR ''0'' @ w' \<and> w' \<noteq> [] \<and>
           trim_whole (w @ CHR ''.'' # r) = w' @ CHR ''.'' # r"
  using assms
proof (induction w)
  case Nil
  then show ?case by simp
next
  case (Cons a w)
  show ?case
  proof (cases w)
    case Nil
    then have "a # w = replicate 0 CHR ''0'' @ [a]" and
      "trim_whole ((a # w) @ CHR ''.'' # r) = [a] @ CHR ''.'' # r" by simp_all
    then show ?thesis by blast
  next
    case (Cons b w2)
    then have b: "is_digit b" using Cons.prems by simp
    then have bp: "b \<noteq> CHR ''.''" using not_digit_point by auto
    show ?thesis
    proof (cases "a = CHR ''0''")
      case True
      have "w \<noteq> []" and "\<forall>c \<in> set w. is_digit c" using Cons Cons.prems by simp_all
      from Cons.IH [OF this] obtain k w' where
        w: "w = replicate k CHR ''0'' @ w'" and ne: "w' \<noteq> []"
        and t: "trim_whole (w @ CHR ''.'' # r) = w' @ CHR ''.'' # r" by blast
      have "a # w = replicate (Suc k) CHR ''0'' @ w'" using True w by simp
      moreover have "trim_whole ((a # w) @ CHR ''.'' # r) = w' @ CHR ''.'' # r"
        using True bp t Cons by simp
      ultimately show ?thesis using ne by blast
    next
      case False
      then have "trim_whole ((a # w) @ CHR ''.'' # r) = (a # w) @ CHR ''.'' # r"
        using Cons by simp
      moreover have "a # w = replicate 0 CHR ''0'' @ (a # w)" by simp
      ultimately show ?thesis by blast
    qed
  qed
qed

text \<open>
  The string of \<open>formatEther\<close> is digits, a point and digits, and it denotes
  \<open>wei / 10 ^ 18\<close> exactly.
\<close>

lemma formatEther_shape:
  "\<exists>w f. formatEther wei = w @ CHR ''.'' # f \<and>
         w \<noteq> [] \<and> f \<noteq> [] \<and> (\<forall>c \<in> set w. is_digit c) \<and> (\<forall>c \<in> set f. is_digit c) \<and>
         (of_nat (decimal_value (w @ f)) :: rat) / 10 ^ length f = of_nat wei / 10 ^ 18"
proof -
  define ds where "ds = toString_bigint wei"
  have ds: "\<forall>c \<in> set ds. is_digit c" "decimal_value ds = wei"
    using toString_bigint_digits [of wei] by (simp_all add: ds_def)
  obtain k where k: "pad_whole 18 ds = replicate k CHR ''0'' @ ds"
    and len: "18 < length (pad_whole 18 ds)"
    using pad_whole_shape [of 18 ds] by blast
  define str where "str = pad_whole 18 ds"
  define w0 where "w0 = take (length str - 18) str"
  define f0 where "f0 = drop (length str - 18) str"
  have str: "str = w0 @ f0" by (simp add: w0_def f0_def)
  have lf0: "length f0 = 18" using len by (simp add: f0_def str_def)
  have "str \<noteq> []" using len by (auto simp add: str_def)
  then have w0ne: "w0 \<noteq> []" using len by (simp add: w0_def str_def)
  have dstr: "\<forall>c \<in> set str. is_digit c"
    using ds(1) is_digit_zero by (auto simp add: str_def k)
  then have dw0: "\<forall>c \<in> set w0. is_digit c" and df0: "\<forall>c \<in> set f0. is_digit c"
    by (auto simp add: str)
  have vstr: "decimal_value str = wei"
    by (simp add: str_def k decimal_value_append decimal_value_zeros ds(2))
  \<comment> \<open>the whole part\<close>
  obtain kw w where w0: "w0 = replicate kw CHR ''0'' @ w" and wne: "w \<noteq> []"
    and tw: "trim_whole (w0 @ CHR ''.'' # f0) = w @ CHR ''.'' # f0"
    using trim_whole_shape [OF w0ne dw0] by blast
  have dw: "\<forall>c \<in> set w. is_digit c" using dw0 by (simp add: w0)
  \<comment> \<open>the decimal part, read from the end\<close>
  have rf0ne: "rev f0 \<noteq> []" using lf0 by auto
  have drf0: "\<forall>c \<in> set (rev f0). is_digit c" using df0 by simp
  obtain kf g where g: "rev f0 = replicate kf CHR ''0'' @ g" and gne: "g \<noteq> []"
    and tg: "trim_whole (rev f0 @ CHR ''.'' # rev w) = g @ CHR ''.'' # rev w"
    using trim_whole_shape [OF rf0ne drf0] by blast
  define f where "f = rev g"
  have f0: "f0 = f @ replicate kf CHR ''0''"
  proof -
    have "f0 = rev (rev f0)" by simp
    also have "\<dots> = rev (replicate kf CHR ''0'' @ g)" by (simp only: g)
    finally show ?thesis by (simp add: f_def)
  qed
  have fne: "f \<noteq> []" using gne by (simp add: f_def)
  have df: "\<forall>c \<in> set f. is_digit c" using df0 by (simp add: f0)
  have "trim_decimal (w @ CHR ''.'' # f0) = rev (g @ CHR ''.'' # rev w)"
    using tg by (simp add: trim_decimal_def)
  then have td: "trim_decimal (w @ CHR ''.'' # f0) = w @ CHR ''.'' # f"
    by (simp add: f_def)
  have "formatEther wei = trim_decimal (trim_whole (w0 @ ''.'' @ f0))"
    by (simp add: formatEther_def fixed_toString_def Let_def ds_def [symmetric]
        str_def [symmetric] w0_def f0_def)
  then have fe: "formatEther wei = w @ CHR ''.'' # f" using tw td by simp
  \<comment> \<open>the value\<close>
  have "decimal_value (w0 @ f0) = decimal_value (w @ f0)"
    by (simp add: w0 decimal_value_append decimal_value_zeros)
  then have "decimal_value (w @ f0) = wei" using vstr by (simp add: str)
  moreover have "decimal_value (w @ f0) = decimal_value (w @ f) * 10 ^ kf"
    using decimal_value_append [of "w @ f" "replicate kf CHR ''0''"]
    by (simp add: f0 decimal_value_zeros)
  ultimately have v: "wei = decimal_value (w @ f) * 10 ^ kf" by simp
  have l: "18 = length f + kf" using lf0 by (simp add: f0)
  have "(of_nat wei :: rat) / 10 ^ 18 =
        of_nat (decimal_value (w @ f)) * 10 ^ kf / (10 ^ length f * 10 ^ kf)"
    by (subst v, subst l) (simp add: power_add)
  also have "\<dots> = of_nat (decimal_value (w @ f)) / 10 ^ length f" by simp
  finally have "(of_nat (decimal_value (w @ f)) :: rat) / 10 ^ length f = of_nat wei / 10 ^ 18"
    by simp
  with fe wne fne dw df show ?thesis by blast
qed

lemma parseFloat_digits_point_digits:
  assumes "w \<noteq> []" and "\<forall>c \<in> set w. is_digit c" and "\<forall>c \<in> set f. is_digit c"
  shows "parseFloat (w @ CHR ''.'' # f) =
           Some (to_double (of_nat (decimal_value (w @ f)) / 10 ^ length f))"
proof -
  have whole: "takeWhile is_digit (w @ CHR ''.'' # f) = w"
    using assms(2) not_digit_point by (simp add: takeWhile_append2)
  have rest: "dropWhile is_digit (w @ CHR ''.'' # f) = CHR ''.'' # f"
    using assms(2) not_digit_point by (simp add: dropWhile_append2)
  have fraction: "takeWhile is_digit f = f" using assms(3) by simp
  show ?thesis using assms(1) by (simp add: parseFloat_def Let_def whole rest fraction)
qed

text \<open>
  So the view never sees \<open>NaN\<close>: \<open>parseFloat\<close> of a string of \<open>formatEther\<close> is the
  binary64 number nearest to \<open>wei / 10 ^ 18\<close>.
\<close>

lemma parseFloat_formatEther:
  "parseFloat (formatEther wei) = Some (to_double (of_nat wei / 10 ^ 18))"
proof -
  obtain w f where fe: "formatEther wei = w @ CHR ''.'' # f" and w: "w \<noteq> []"
    and dw: "\<forall>c \<in> set w. is_digit c" and df: "\<forall>c \<in> set f. is_digit c"
    and v: "(of_nat (decimal_value (w @ f)) :: rat) / 10 ^ length f = of_nat wei / 10 ^ 18"
    using formatEther_shape [of wei] by blast
  show ?thesis
    by (simp only: fe parseFloat_digits_point_digits [OF w dw df] v)
qed

text \<open>The strings of the scenario.\<close>

lemma formatEther_scenario:
  "formatEther 5000000000000000000 = ''5.0''"
  "formatEther 4800000000000000000 = ''4.8''"
  "formatEther 2000000000000000000 = ''2.0''"
  by (simp_all add: formatEther_def fixed_toString_def trim_decimal_def digit_char_def
      toString_bigint.simps pad_whole.simps)

lemma parseFloat_5: "parseFloat ''5.0'' = Some 5"
  using to_double_exact [of 5 0]
  by (simp add: parseFloat_def is_digit_def decimal_value_def digit_value_def)

lemma parseFloat_2: "parseFloat ''2.0'' = Some 2"
  using to_double_exact [of 2 0]
  by (simp add: parseFloat_def is_digit_def decimal_value_def digit_value_def)

lemma to_double_4_8: "to_double (24 / 5) = 5404319552844595 / 1125899906842624"
  by (subst to_double_eval [where e = 2])
     (simp_all add: round_half_even_def Let_def floor_rat_numeral)

lemma parseFloat_4_8: "parseFloat ''4.8'' = Some (5404319552844595 / 1125899906842624)"
  using to_double_4_8
  by (simp add: parseFloat_def is_digit_def decimal_value_def digit_value_def)

lemma displayed_amount_scenario:
  "displayed_amount ts ''5.0'' = ''5.00''"
  "displayed_amount ts ''4.8'' = ''4.80''"
  "displayed_amount ts ''2.0'' = ''2.00''"
  by (simp_all add: displayed_amount_def toFixed_def parseFloat_5 parseFloat_2 parseFloat_4_8
      Let_def floor_rat_numeral digit_char_def toString_bigint.simps)

text \<open>
  What the view shows for an amount of \<open>wei\<close>: the two-digit form of the binary64 number
  nearest to \<open>wei / 10 ^ 18\<close>.
\<close>

lemma displayed_amount_formatEther:
  "displayed_amount Number_toString (formatEther wei) =
     toFixed Number_toString (Some (to_double (of_nat wei / 10 ^ 18))) 2"
  by (simp only: displayed_amount_def parseFloat_formatEther)

subsection \<open>Runs\<close>

lemmas js_simps =
  return_def throw_def bind_def seq_def try_catch_def emit_def await_def alert_def
  console_error_def modify_def setAccount_def setProvider_def setSigner_def
  setContracts_def setLoading_def setReputationData_def get_state_def

lemmas run_simps = outcome_def after_def events_def

lemmas load_simps = loadUserData_def contractsObj_or_contracts_def

lemma loadUserData_None:
  "loadUserData w a None m =
     (Inr (),
      m\<lparr>trace := trace m @
        [ConsoleError ''Error loading user data:'' (ReferenceError ''contracts'')]\<rparr>)"
  by (simp add: load_simps js_simps)

lemma loadUserData_all_ok:
  assumes "getReputationScore w (reputationNFT c) a = Inr s" and "0 < unat s"
    and "getReputationData w (reputationNFT c) a = Inr d"
    and "getBorrowingLimit w (lendingPool c) a = Inr b"
    and "getInterestRate w (lendingPool c) a = Inr i"
    and "getTrustScore w (trustCircle c) a = Inr t"
    and "getUserCircles w (trustCircle c) a = Inr cs"
  shows "loadUserData w a (Some c) m =
           (Inr (),
            m\<lparr>trace := trace m @
                 [Call GetReputationScore, Call GetReputationData, Call GetBorrowingLimit,
                  Call GetInterestRate, Call GetTrustScore, Call GetUserCircles,
                  SetReputationData (make_snapshot d b i t cs)],
              session := (session m)\<lparr>reputationData := Some (make_snapshot d b i t cs)\<rparr>\<rparr>)"
  using assms by (simp add: load_simps js_simps)

lemma scenario_reads:
  "getReputationScore scenario x a = Inr 750"
  "getReputationData scenario x a = Inr scenario_data"
  "getBorrowingLimit scenario x a = Inr 2000000000000000000"
  "getInterestRate scenario x a = Inr 850"
  "getTrustScore scenario x a = Inr 120"
  "getUserCircles scenario x a = Inr [7, 12]"
  by (simp_all add: scenario_def)

lemma make_snapshot_scenario:
  "make_snapshot scenario_data 2000000000000000000 850 120 [7, 12] = scenario_snapshot"
proof -
  have "js_divide (Number_bigint 850) 100 = of_nat 850 / 100"
    by (subst rate_exact_iff) simp_all
  then show ?thesis
    by (simp add: make_snapshot_def scenario_data_def scenario_snapshot_def
        Number_bigint_exact formatEther_scenario)
qed

text \<open>
  C1. When the score is positive and one of the five dependent reads fails, the run of
  \<open>loadUserData\<close> ends normally with the state of the component as it was (a stored
  Snapshot stays), publishes no Snapshot, and writes the error to the console.
\<close>

theorem loadUserData_read_failure:
  assumes "getReputationScore w (reputationNFT c) a = Inr s" and "0 < unat s"
    and "isl (getReputationData w (reputationNFT c) a) \<or>
         isl (getBorrowingLimit w (lendingPool c) a) \<or>
         isl (getInterestRate w (lendingPool c) a) \<or>
         isl (getTrustScore w (trustCircle c) a) \<or>
         isl (getUserCircles w (trustCircle c) a)"
  shows "outcome (loadUserData w a (Some c)) m = Inr () \<and>
         after (loadUserData w a (Some c)) m = session m \<and>
         published (events (loadUserData w a (Some c)) m) = [] \<and>
         map fst (console (events (loadUserData w a (Some c)) m)) = [''Error loading user data:'']"
  using assms
  by (auto simp add: run_simps load_simps js_simps split: sum.splits)

theorem loadUserData_read_failure_witness:
  "getReputationScore rate_unavailable (reputationNFT scenario_contracts) (Some alice) = Inr 750 \<and>
   0 < unat (750 :: uint256) \<and>
   isl (getInterestRate rate_unavailable (lendingPool scenario_contracts) (Some alice)) \<and>
   after (loadUserData rate_unavailable (Some alice) (Some scenario_contracts)) onboarded
     = session onboarded \<and>
   reputationData (session onboarded) = Some scenario_snapshot \<and>
   published (events (loadUserData rate_unavailable (Some alice) (Some scenario_contracts)) onboarded)
     = []"
  using loadUserData_read_failure
    [of rate_unavailable scenario_contracts "Some alice" 750 onboarded]
  by (simp add: rate_unavailable_def scenario_def onboarded_def)

text \<open>
  C2. When the reputation score of the address reads as 0, the run of \<open>loadUserData\<close> ends
  normally after that one read: no Snapshot is published and the state of the component,
  the stored Snapshot included, is what it was.
\<close>

theorem loadUserData_score_zero:
  assumes "getReputationScore w (reputationNFT c) a = Inr s" and "unat s = 0"
  shows "outcome (loadUserData w a (Some c)) m = Inr () \<and>
         after (loadUserData w a (Some c)) m = session m \<and>
         events (loadUserData w a (Some c)) m = [Call GetReputationScore]"
  using assms by (simp add: run_simps load_simps js_simps)

theorem loadUserData_score_zero_witness:
  "getReputationScore unregistered (reputationNFT scenario_contracts) (Some alice) = Inr 0 \<and>
   unat (0 :: uint256) = 0 \<and>
   outcome (loadUserData unregistered (Some alice) (Some scenario_contracts)) connected = Inr () \<and>
   after (loadUserData unregistered (Some alice) (Some scenario_contracts)) connected
     = session connected \<and>
   events (loadUserData unregistered (Some alice) (Some scenario_contracts)) connected
     = [Call GetReputationScore]"
  using loadUserData_score_zero [of unregistered scenario_contracts "Some alice" 0 connected]
  by (simp add: unregistered_def scenario_def)

text \<open>
  C3, as the code has it. With a positive score and all reads answered, the stored
  \<open>interestRate\<close> is the binary64 quotient of \<open>Number(raw)\<close> by 100. For a raw value below
  \<open>2 ^ 53\<close> it is \<open>raw / 100\<close> exactly if and only if \<open>raw\<close> is a multiple of 25
  (so 250 gives 2.5 and 850 gives 8.5); otherwise it is the nearest binary64 number.
\<close>

theorem interestRate_binary64:
  assumes "getReputationScore w (reputationNFT c) a = Inr s" and "0 < unat s"
    and "getReputationData w (reputationNFT c) a = Inr d"
    and "getBorrowingLimit w (lendingPool c) a = Inr b"
    and "getInterestRate w (lendingPool c) a = Inr raw"
    and "getTrustScore w (trustCircle c) a = Inr t"
    and "getUserCircles w (trustCircle c) a = Inr cs"
  shows "map_option interestRate (reputationData (after (loadUserData w a (Some c)) m))
           = Some (js_divide (Number_bigint (unat raw)) 100) \<and>
         (unat raw < 2 ^ 53 \<longrightarrow>
            (map_option interestRate (reputationData (after (loadUserData w a (Some c)) m))
               = Some (of_nat (unat raw) / 100)
             \<longleftrightarrow> 25 dvd unat raw))"
proof -
  let ?rate = "map_option interestRate (reputationData (after (loadUserData w a (Some c)) m))"
  have r: "?rate = Some (js_divide (Number_bigint (unat raw)) 100)"
    by (simp add: run_simps loadUserData_all_ok [OF assms] make_snapshot_def)
  have "?rate = Some (of_nat (unat raw) / 100) \<longleftrightarrow> 25 dvd unat raw" if "unat raw < 2 ^ 53"
    unfolding r by (simp only: option.inject rate_exact_iff [OF that])
  with r show ?thesis by blast
qed

theorem interestRate_binary64_witness:
  "getInterestRate scenario (lendingPool scenario_contracts) (Some alice) = Inr 850 \<and>
   0 < unat (750 :: uint256) \<and> unat (850 :: uint256) < 2 ^ 53 \<and> 25 dvd unat (850 :: uint256) \<and>
   map_option interestRate
     (reputationData (after (loadUserData scenario (Some alice) (Some scenario_contracts)) fresh))
     = Some (17 / 2)"
  using interestRate_binary64
    [of scenario scenario_contracts "Some alice" 750 scenario_data
        2000000000000000000 850 120 "[7, 12]" fresh]
  by (simp add: scenario_reads)

theorem interestRate_not_exact_counterexample:
  "map_option interestRate
     (reputationData (after (loadUserData huge_rate (Some alice) (Some scenario_contracts)) fresh))
     = Some (5764607523034235 / 64) \<and>
   map_option interestRate
     (reputationData (after (loadUserData huge_rate (Some alice) (Some scenario_contracts)) fresh))
     \<noteq> Some (of_nat (unat (9007199254740993 :: uint256)) / 100)"
proof -
  have "loadUserData huge_rate (Some alice) (Some scenario_contracts) fresh =
    (Inr (),
     fresh\<lparr>trace := trace fresh @
         [Call GetReputationScore, Call GetReputationData, Call GetBorrowingLimit,
          Call GetInterestRate, Call GetTrustScore, Call GetUserCircles,
          SetReputationData
            (make_snapshot scenario_data 2000000000000000000 9007199254740993 120 [7, 12])],
       session := (session fresh)\<lparr>reputationData :=
          Some (make_snapshot scenario_data 2000000000000000000 9007199254740993 120 [7, 12])\<rparr>\<rparr>)"
    by (rule loadUserData_all_ok [where s = 750]) (simp_all add: huge_rate_def scenario_def)
  then show ?thesis
    by (simp add: run_simps make_snapshot_def Number_bigint_2_53_1 js_divide_2_53)
qed

text \<open>
  C4, as the code has it. With a positive score the dependent reads are issued one at a
  time, in the order of the source, each after the one before it was answered: a read is
  issued only when all reads before it succeeded. When all five succeeded the Snapshot is
  published, after the last answer; when one failed no Snapshot is published.
\<close>

theorem loadUserData_reads_in_sequence:
  assumes "getReputationScore w (reputationNFT c) a = Inr s" and "0 < unat s"
  shows "calls_of (events (loadUserData w a (Some c)) m) =
           take (2 + length (takeWhile Not
                   [isl (getReputationData w (reputationNFT c) a),
                    isl (getBorrowingLimit w (lendingPool c) a),
                    isl (getInterestRate w (lendingPool c) a),
                    isl (getTrustScore w (trustCircle c) a)]))
             [GetReputationScore, GetReputationData, GetBorrowingLimit, GetInterestRate,
              GetTrustScore, GetUserCircles] \<and>
         (if isl (getReputationData w (reputationNFT c) a) \<or>
             isl (getBorrowingLimit w (lendingPool c) a) \<or>
             isl (getInterestRate w (lendingPool c) a) \<or>
             isl (getTrustScore w (trustCircle c) a) \<or>
             isl (getUserCircles w (trustCircle c) a)
          then published (events (loadUserData w a (Some c)) m) = []
          else events (loadUserData w a (Some c)) m =
                 [Call GetReputationScore, Call GetReputationData, Call GetBorrowingLimit,
                  Call GetInterestRate, Call GetTrustScore, Call GetUserCircles,
                  SetReputationData
                    (make_snapshot
                       (projr (getReputationData w (reputationNFT c) a))
                       (projr (getBorrowingLimit w (lendingPool c) a))
                       (projr (getInterestRate w (lendingPool c) a))
                       (projr (getTrustScore w (trustCircle c) a))
                       (projr (getUserCircles w (trustCircle c) a)))])"
  using assms
  by (auto simp add: run_simps load_simps js_simps split: sum.splits)

theorem loadUserData_reads_in_sequence_witness:
  "getReputationScore scenario (reputationNFT scenario_contracts) (Some alice) = Inr 750 \<and>
   0 < unat (750 :: uint256) \<and>
   events (loadUserData scenario (Some alice) (Some scenario_contracts)) fresh =
     [Call GetReputationScore, Call GetReputationData, Call GetBorrowingLimit,
      Call GetInterestRate, Call GetTrustScore, Call GetUserCircles,
      SetReputationData scenario_snapshot]"
  using loadUserData_reads_in_sequence [of scenario scenario_contracts "Some alice" 750 fresh]
  by (simp add: scenario_reads make_snapshot_scenario)

theorem reads_not_concurrent_counterexample:
  "calls_of (events (loadUserData data_unavailable (Some alice) (Some scenario_contracts)) fresh)
     = [GetReputationScore, GetReputationData]"
  by (simp add: run_simps load_simps js_simps data_unavailable_def scenario_def)

text \<open>
  C5, as the code has it. When the mint is accepted and confirmed, \<open>mintReputation\<close> ends
  normally, clears the loading flag and shows the alert of success, whatever became of the
  refresh (\<open>loadUserData\<close> keeps its failure to itself); the mint is submitted once.
\<close>

theorem mintReputation_accepted:
  assumes "contracts (session m) = Some c"
    and "mint w (reputationNFT c) (account (session m)) = Inr tx"
    and "wait w = Inr u"
  shows "outcome (mintReputation w) m = Inr () \<and>
         alerts (events (mintReputation w) m) = [''Reputation NFT minted successfully!''] \<and>
         count_list (calls_of (events (mintReputation w) m)) Mint = 1 \<and>
         loading (after (mintReputation w) m) = False"
  using assms
  by (simp add: run_simps mintReputation_def loadUserData_None js_simps)

theorem mintReputation_accepted_witness:
  "contracts (session connected) = Some scenario_contracts \<and>
   mint scenario (reputationNFT scenario_contracts) (account (session connected)) = Inr () \<and>
   wait scenario = Inr () \<and>
   outcome (mintReputation scenario) connected = Inr () \<and>
   alerts (events (mintReputation scenario) connected) = [''Reputation NFT minted successfully!''] \<and>
   count_list (calls_of (events (mintReputation scenario) connected)) Mint = 1"
  using mintReputation_accepted [of connected scenario_contracts scenario "()" "()"]
  by (simp add: connected_def scenario_def)

theorem refresh_failure_reported_as_success_counterexample:
  "outcome (mintReputation scenario) connected = Inr () \<and>
   events (mintReputation scenario) connected =
     [Call Mint, Call TxWait,
      ConsoleError ''Error loading user data:'' (ReferenceError ''contracts''),
      Alert ''Reputation NFT minted successfully!'']"
  by (simp add: run_simps mintReputation_def loadUserData_None js_simps connected_def scenario_def)

text \<open>
  C6, as the code has it. Every failure of \<open>connectWallet\<close>, \<open>loadUserData\<close> and
  \<open>mintReputation\<close> is caught inside the operation: each of the three always ends
  normally, so its caller receives no error; and no request is issued twice in a run.
\<close>

theorem failures_are_caught:
  "outcome (connectWallet w) m = Inr () \<and>
   outcome (loadUserData w a co) m = Inr () \<and>
   outcome (mintReputation w) m = Inr () \<and>
   distinct (calls_of (events (connectWallet w) m)) \<and>
   distinct (calls_of (events (loadUserData w a co) m)) \<and>
   distinct (calls_of (events (mintReputation w) m))"
proof -
  have load: "outcome (loadUserData w a co) m = Inr () \<and>
              distinct (calls_of (events (loadUserData w a co) m))"
    by (cases co) (simp_all add: run_simps load_simps js_simps split: sum.splits)
  have mint: "outcome (mintReputation w) m = Inr () \<and>
              distinct (calls_of (events (mintReputation w) m))"
    by (simp add: run_simps mintReputation_def loadUserData_None js_simps
        split: sum.splits option.splits)
  have conn: "outcome (connectWallet w) m = Inr () \<and>
              distinct (calls_of (events (connectWallet w) m))"
    by (simp add: run_simps connectWallet_def load_simps js_simps Let_def split: sum.splits)
  from load mint conn show ?thesis by simp
qed

theorem rejected_connection_counterexample:
  "outcome (connectWallet user_rejects) fresh = Inr () \<and>
   events (connectWallet user_rejects) fresh =
     [Call EthRequestAccounts,
      ConsoleError ''Error connecting wallet:'' (Rejected ''User rejected the request.'')]"
  by (simp add: run_simps connectWallet_def js_simps user_rejects_def scenario_def fresh_def)

text \<open>
  C7. A call of \<open>loadUserData\<close> without its second argument throws the ReferenceError of
  line 87 before any request is issued; the error is caught and written to the console,
  and the state is what it was. So \<open>mintReputation\<close>, which calls it that way, never
  changes the stored Snapshot and never publishes one.
\<close>

theorem loadUserData_without_contracts:
  "outcome (loadUserData w a None) m = Inr () \<and>
   after (loadUserData w a None) m = session m \<and>
   events (loadUserData w a None) m =
     [ConsoleError ''Error loading user data:'' (ReferenceError ''contracts'')] \<and>
   reputationData (after (mintReputation w) m) = reputationData (session m) \<and>
   published (events (mintReputation w) m) = []"
  by (simp add: run_simps loadUserData_None mintReputation_def js_simps
      split: sum.splits option.splits)

text \<open>
  C8. When there is no wallet, or the request for the accounts or for the signer is
  rejected, \<open>connectWallet\<close> leaves the account, the provider, the signer, the contracts
  and the Snapshot as they were, the loading flag cleared; no contract is asked
  anything and no Snapshot is published.
\<close>

theorem connectWallet_failure:
  assumes "\<not> ethereum w \<or> isl (eth_requestAccounts w) \<or> isl (getSigner w)"
  shows "after (connectWallet w) m =
           (if ethereum w then (session m)\<lparr>loading := False\<rparr> else session m) \<and>
         set (calls_of (events (connectWallet w) m)) \<subseteq> {EthRequestAccounts, GetSigner} \<and>
         published (events (connectWallet w) m) = []"
  using assms
  by (auto simp add: run_simps connectWallet_def js_simps split: sum.splits)

theorem connectWallet_failure_witness:
  "isl (eth_requestAccounts user_rejects) \<and>
   after (connectWallet user_rejects) fresh = initial_state \<and>
   calls_of (events (connectWallet user_rejects) fresh) = [EthRequestAccounts]"
proof -
  have "calls_of (events (connectWallet user_rejects) fresh) = [EthRequestAccounts]"
    by (simp add: run_simps connectWallet_def js_simps user_rejects_def scenario_def fresh_def)
  with connectWallet_failure [of user_rejects fresh] show ?thesis
    by (simp add: user_rejects_def scenario_def fresh_def initial_state_def)
qed

text \<open>
  C9, as the code has it. The indices 0 to 4 give the five pairs of name and colour.
  Any other index gives \<open>undefined\<close> for both, without an error: the view is rendered,
  with no name before the word Tier and no colour.
\<close>

theorem tier_lookup:
  "(js_index tierNames 0, js_index tierColors 0) = (Some ''Bronze'', Some ''#CD7F32'') \<and>
   (js_index tierNames 1, js_index tierColors 1) = (Some ''Silver'', Some ''#C0C0C0'') \<and>
   (js_index tierNames 2, js_index tierColors 2) = (Some ''Gold'', Some ''#FFD700'') \<and>
   (js_index tierNames 3, js_index tierColors 3) = (Some ''Platinum'', Some ''#E5E4E2'') \<and>
   (js_index tierNames 4, js_index tierColors 4) = (Some ''Diamond'', Some ''#B9F2FF'') \<and>
   (tier rd \<notin> {0, 1, 2, 3, 4} \<longrightarrow>
      js_index tierNames (tier rd) = None \<and> js_index tierColors (tier rd) = None \<and>
      render_tier rd =
        Inr \<lparr>background = ''linear-gradient(135deg, undefined, undefined99)'',
             boxShadow = ''0 0 40px undefined66'',
             badge_color = None, badge_text = '' Tier''\<rparr>)"
proof -
  have out: "js_index xs i = None" if "i \<notin> {0, 1, 2, 3, 4}" and "length xs = 5"
    for xs :: "string list" and i :: rat
  proof (rule ccontr)
    assume "js_index xs i \<noteq> None"
    then have whole: "of_int \<lfloor>i\<rfloor> = i" and "0 \<le> i" and "nat \<lfloor>i\<rfloor> < 5"
      using that(2) by (auto simp add: js_index_def split: if_splits)
    define n where "n = \<lfloor>i\<rfloor>"
    have "0 \<le> n" using \<open>0 \<le> i\<close> by (simp add: n_def)
    moreover have "n < 5" using \<open>nat \<lfloor>i\<rfloor> < 5\<close> unfolding n_def by arith
    ultimately have "0 \<le> n" and "n < 5" by simp_all
    then have "n \<in> {0, 1, 2, 3, 4}" by auto
    moreover have "i = of_int n" unfolding n_def by (rule whole [symmetric])
    ultimately have "i \<in> {0, 1, 2, 3, 4}" by auto
    with that(1) show False by simp
  qed
  have "js_index tierNames (tier rd) = None \<and> js_index tierColors (tier rd) = None"
    if "tier rd \<notin> {0, 1, 2, 3, 4}"
    using out [OF that] by (simp add: tierNames_def tierColors_def)
  then show ?thesis
    by (simp add: render_tier_def template_def)
       (simp add: js_index_def tierNames_def tierColors_def)
qed

theorem tier_lookup_witness:
  "tier (scenario_snapshot\<lparr>tier := 200\<rparr>) \<notin> {0, 1, 2, 3, 4} \<and>
   js_index tierNames (tier (scenario_snapshot\<lparr>tier := 200\<rparr>)) = None \<and>
   js_index tierColors (tier (scenario_snapshot\<lparr>tier := 200\<rparr>)) = None"
  using tier_lookup [of "scenario_snapshot\<lparr>tier := 200\<rparr>"] by simp

theorem tier_five_counterexample:
  "render_tier (scenario_snapshot\<lparr>tier := 5\<rparr>) =
     Inr \<lparr>background = ''linear-gradient(135deg, undefined, undefined99)'',
          boxShadow = ''0 0 40px undefined66'',
          badge_color = None, badge_text = '' Tier''\<rparr>"
  by (simp add: render_tier_def template_def js_index_def tierNames_def tierColors_def)

text \<open>
  C10. In the scenario of the specification \<open>loadUserData\<close> stores the Snapshot with
  score 750, tier 2 (named Gold by the view), 3 loans completed, the interest rate 8.5,
  the trust score 120 and 2 circles; its amounts are the strings of \<open>formatEther\<close>,
  5.0, 4.8 and 2.0, which the view shows with two fraction digits: 5.00, 4.80 and 2.00.
\<close>

theorem loadUserData_scenario:
  assumes "getReputationScore w (reputationNFT c) a = Inr 750"
    and "getReputationData w (reputationNFT c) a = Inr d"
    and "data_score d = 750" and "data_loansCompleted d = 3"
    and "data_totalBorrowed d = 5000000000000000000"
    and "data_totalRepaid d = 4800000000000000000"
    and "data_currentTier d = 2"
    and "getBorrowingLimit w (lendingPool c) a = Inr 2000000000000000000"
    and "getInterestRate w (lendingPool c) a = Inr 850"
    and "getTrustScore w (trustCircle c) a = Inr 120"
    and "getUserCircles w (trustCircle c) a = Inr [7, 12]"
  shows "reputationData (after (loadUserData w a (Some c)) m) =
           Some \<lparr>score = 750, tier = 2, loansCompleted = 3,
                 totalBorrowed = ''5.0'', totalRepaid = ''4.8'', borrowingLimit = ''2.0'',
                 interestRate = 17 / 2, trustScore = 120, circles = 2\<rparr> \<and>
         map_option
           (\<lambda>rd. (js_index tierNames (tier rd),
                  displayed_amount Number_toString (totalBorrowed rd),
                  displayed_amount Number_toString (totalRepaid rd),
                  displayed_amount Number_toString (borrowingLimit rd)))
           (reputationData (after (loadUserData w a (Some c)) m)) =
           Some (Some ''Gold'', ''5.00'', ''4.80'', ''2.00'')"
proof -
  have rate: "js_divide (Number_bigint 850) 100 = of_nat 850 / 100"
    by (subst rate_exact_iff) simp_all
  have "loadUserData w a (Some c) m =
    (Inr (),
     m\<lparr>trace := trace m @
          [Call GetReputationScore, Call GetReputationData, Call GetBorrowingLimit,
           Call GetInterestRate, Call GetTrustScore, Call GetUserCircles,
           SetReputationData (make_snapshot d 2000000000000000000 850 120 [7, 12])],
       session := (session m)\<lparr>reputationData :=
           Some (make_snapshot d 2000000000000000000 850 120 [7, 12])\<rparr>\<rparr>)"
    using assms by (intro loadUserData_all_ok [where s = 750]) simp_all
  then have stored: "reputationData (after (loadUserData w a (Some c)) m) =
           Some \<lparr>score = 750, tier = 2, loansCompleted = 3,
                 totalBorrowed = ''5.0'', totalRepaid = ''4.8'', borrowingLimit = ''2.0'',
                 interestRate = 17 / 2, trustScore = 120, circles = 2\<rparr>"
    using assms rate
    by (simp add: run_simps make_snapshot_def Number_bigint_exact formatEther_scenario)
  show ?thesis
    unfolding stored
    by (simp add: displayed_amount_scenario js_index_def tierNames_def)
qed

theorem loadUserData_scenario_witness:
  "getReputationData scenario (reputationNFT scenario_contracts) (Some alice) = Inr scenario_data \<and>
   data_totalBorrowed scenario_data = 5000000000000000000 \<and>
   reputationData (after (loadUserData scenario (Some alice) (Some scenario_contracts)) fresh)
     = Some scenario_snapshot \<and>
   map_option
     (\<lambda>rd. (js_index tierNames (tier rd),
            displayed_amount (\<lambda>x. []) (totalBorrowed rd),
            displayed_amount (\<lambda>x. []) (totalRepaid rd),
            displayed_amount (\<lambda>x. []) (borrowingLimit rd)))
     (reputationData (after (loadUserData scenario (Some alice) (Some scenario_contracts)) fresh)) =
     Some (Some ''Gold'', ''5.00'', ''4.80'', ''2.00'')"
  using loadUserData_scenario
    [of scenario scenario_contracts "Some alice" scenario_data fresh "\<lambda>x. []"]
  by (simp add: scenario_reads scenario_data_def scenario_snapshot_def
      displayed_amount_scenario js_index_def tierNames_def)

end
